theory Spec2Isabelle
  imports Complex_Main "HOL-Library.Multiset" "HOL-Library.Char_ord" "HOL-Library.List_Lexorder"
    "HOL-Library.Product_Lexorder"
begin

section \<open>Analytics views of the ERP: sales, inventory, financial\<close>

text \<open>
  The three views of \<^verbatim>\<open>analytics/reports/views.py\<close> fetch rows with SQL, load them
  into pandas data frames and derive the figures of the response. The embedding takes the
  fetched rows as lists of records (one record per row, the columns as fields) and models
  every step the views perform on them.

  Numbers: amounts are Python floats (or SQL numerics turned into floats); they are
  modelled as exact \<open>real\<close> numbers, so rounding is not part of the model. Counts and
  stock quantities are integers.
\<close>

subsection \<open>Errors and arithmetic that can fail\<close>

datatype py_error = ZeroDivisionError | OverflowError | OutOfBoundsDatetime

text \<open>
  \<^verbatim>\<open>a / b\<close> on two Python floats raises \<^verbatim>\<open>ZeroDivisionError\<close> when \<open>b\<close> is zero.
\<close>

definition py_truediv :: "real \<Rightarrow> real \<Rightarrow> py_error + real" where
  "py_truediv a b = (if b = 0 then Inl ZeroDivisionError else Inr (a / b))"

subsection \<open>Sales: growth rate\<close>

text \<open>
  \<^verbatim>\<open>prev_revenue = float(prev_result[0]) if prev_result[0] else 0\<close>: the sum of the
  previous period is \<open>None\<close> when no row matched, and a zero sum is falsy as well.
\<close>

definition prev_revenue_of :: "real option \<Rightarrow> real" where
  "prev_revenue_of prev_result =
     (case prev_result of
        None \<Rightarrow> 0
      | Some v \<Rightarrow> (if v \<noteq> 0 then v else 0))"

text \<open>
  \<^verbatim>\<open>growth_rate = ((total_revenue - prev_revenue) / prev_revenue * 100)
                   if prev_revenue > 0 else 0\<close>
  The conditional expression tests first, so the division only runs on the first branch.
\<close>

definition growth_rate :: "real \<Rightarrow> real \<Rightarrow> py_error + real" where
  "growth_rate total_revenue prev_revenue =
     (if prev_revenue > 0
      then (case py_truediv (total_revenue - prev_revenue) prev_revenue of
              Inl e \<Rightarrow> Inl e
            | Inr q \<Rightarrow> Inr (q * 100))
      else Inr 0)"

subsection \<open>NumPy floats\<close>

text \<open>
  NumPy scalars do not raise on a division by zero: the result is an infinity or NaN.
  Every comparison with NaN is false. The mean of an empty column is NaN.
\<close>

datatype np_float = Fin real | NaN | PosInf | NegInf

fun np_gt :: "np_float \<Rightarrow> real \<Rightarrow> bool" where
  "np_gt (Fin x) c = (x > c)"
| "np_gt PosInf c = True"
| "np_gt NegInf c = False"
| "np_gt NaN c = False"

fun np_truediv :: "real \<Rightarrow> np_float \<Rightarrow> np_float" where
  "np_truediv a (Fin b) =
     (if b = 0 then (if a = 0 then NaN else if a > 0 then PosInf else NegInf)
      else Fin (a / b))"
| "np_truediv a PosInf = Fin 0"
| "np_truediv a NegInf = Fin 0"
| "np_truediv a NaN = NaN"

definition np_mean :: "int list \<Rightarrow> np_float" where
  "np_mean xs =
     (if xs = [] then NaN else Fin (real_of_int (sum_list xs) / real (length xs)))"

subsection \<open>Charts\<close>

text \<open>
  A figure is kept as the data the view hands to the plotting library: its title, its axis
  titles and its traces (kind, name, x and y or names and values).
\<close>

datatype trace_kind = Scatter | Bar | Pie

record 'x trace =
  trace_kind :: trace_kind
  trace_name :: string
  trace_x :: "'x list"
  trace_y :: "real list"

record 'x chart =
  chart_title :: string
  xaxis_title :: string
  yaxis_title :: string
  traces :: "'x trace list"

subsection \<open>Grouping\<close>

text \<open>
  \<^verbatim>\<open>df.groupby(col)\<close> with the defaults: rows whose key is missing are dropped, the
  groups come in ascending order of the key, each group keeps its rows in frame order.
\<close>

definition group_keys :: "('r \<Rightarrow> 'k::linorder option) \<Rightarrow> 'r list \<Rightarrow> 'k list" where
  "group_keys col df = sort (remdups (List.map_filter col df))"

definition group_rows :: "('r \<Rightarrow> 'k option) \<Rightarrow> 'r list \<Rightarrow> 'k \<Rightarrow> 'r list" where
  "group_rows col df k = filter (\<lambda>r. col r = Some k) df"

subsection \<open>Inventory\<close>

text \<open>
  One row of the inventory query per active product, with the columns the frame names.
  \<open>total_sold\<close> and \<open>total_purchased\<close> are the 30-day sums, \<open>0\<close> where the product has
  none (\<^verbatim>\<open>COALESCE\<close>). Category and supplier come from left joins and may be missing.
\<close>

record stock_row =
  product_id :: int
  name :: string
  sku :: string
  current_stock :: int
  min_stock :: int
  max_stock :: int
  price :: real
  cost :: real
  category_name :: "string option"
  supplier_name :: "string option"
  total_sold :: int
  total_purchased :: int

text \<open>\<^verbatim>\<open>df[df['current_stock'] <= df['min_stock']]\<close> and \<^verbatim>\<open>df[df['current_stock'] == 0]\<close>.\<close>

definition low_stock_items :: "stock_row list \<Rightarrow> stock_row list" where
  "low_stock_items df = filter (\<lambda>r. current_stock r \<le> min_stock r) df"

definition out_of_stock_items :: "stock_row list \<Rightarrow> stock_row list" where
  "out_of_stock_items df = filter (\<lambda>r. current_stock r = 0) df"

text \<open>
  \<^verbatim>\<open>df.nlargest(n, col)\<close> with \<^verbatim>\<open>keep='first'\<close>: the first \<open>n\<close> rows of the frame
  ordered by descending \<open>col\<close>, earlier rows first among equal values.
\<close>

definition nlargest :: "nat \<Rightarrow> ('r \<Rightarrow> int) \<Rightarrow> 'r list \<Rightarrow> 'r list" where
  "nlargest n col df = take n (sort_key (\<lambda>r. - col r) df)"

text \<open>\<^verbatim>\<open>df.nlargest(10, 'total_sold')[['name', 'total_sold']]\<close>\<close>

definition top_selling_products :: "stock_row list \<Rightarrow> (string \<times> int) list" where
  "top_selling_products df = map (\<lambda>r. (name r, total_sold r)) (nlargest 10 total_sold df)"

definition total_inventory_value :: "stock_row list \<Rightarrow> real" where
  "total_inventory_value df = sum_list (map (\<lambda>r. real_of_int (current_stock r) * cost r) df)"

text \<open>
  \<^verbatim>\<open>avg_inventory = df['current_stock'].mean()
  total_sold = df['total_sold'].sum()
  turnover_ratio = float(total_sold / avg_inventory) if avg_inventory > 0 else 0\<close>
\<close>

definition turnover_ratio :: "stock_row list \<Rightarrow> np_float" where
  "turnover_ratio df =
     (let avg_inventory = np_mean (map current_stock df);
          total = sum_list (map total_sold df)
      in if np_gt avg_inventory 0 then np_truediv (real_of_int total) avg_inventory
         else Fin 0)"

text \<open>
  The frame behind the status chart: three counts, the third by subtracting the first two
  from the number of products.
\<close>

definition alert_data :: "stock_row list \<Rightarrow> (string \<times> int) list" where
  "alert_data df =
     [(''Low Stock'', int (length (low_stock_items df))),
      (''Out of Stock'', int (length (out_of_stock_items df))),
      (''Normal'', int (length df) - int (length (low_stock_items df))
                     - int (length (out_of_stock_items df)))]"

definition status_count :: "stock_row list \<Rightarrow> string \<Rightarrow> int option" where
  "status_count df status = map_of (alert_data df) status"

definition category_stock :: "stock_row list \<Rightarrow> (string \<times> int) list" where
  "category_stock df =
     map (\<lambda>k. (k, sum_list (map current_stock (group_rows category_name df k))))
       (group_keys category_name df)"

definition category_chart :: "stock_row list \<Rightarrow> string chart" where
  "category_chart df =
     \<lparr>chart_title = ''Stock Distribution by Category'', xaxis_title = [], yaxis_title = [],
      traces = [\<lparr>trace_kind = Pie, trace_name = [],
                 trace_x = map fst (category_stock df),
                 trace_y = map (real_of_int \<circ> snd) (category_stock df)\<rparr>]\<rparr>"

definition alert_chart :: "stock_row list \<Rightarrow> string chart" where
  "alert_chart df =
     \<lparr>chart_title = ''Inventory Status Overview'', xaxis_title = ''Status'',
      yaxis_title = ''Count'',
      traces = map (\<lambda>(s, c). \<lparr>trace_kind = Bar, trace_name = s, trace_x = [s],
                               trace_y = [real_of_int c]\<rparr>) (alert_data df)\<rparr>"

record inventory_body =
  inv_total_products :: nat
  inv_low_stock_items :: "stock_row list"
  inv_out_of_stock_items :: "stock_row list"
  inv_top_selling_products :: "(string \<times> int) list"
  inv_inventory_value :: real
  inv_turnover_ratio :: np_float
  inv_charts :: "(string \<times> string chart) list"

text \<open>The view, from the fetched rows to the body of its response.\<close>

definition inventory_analytics :: "stock_row list \<Rightarrow> inventory_body" where
  "inventory_analytics inventory_data =
     (if inventory_data = []
      then \<lparr>inv_total_products = 0, inv_low_stock_items = [], inv_out_of_stock_items = [],
            inv_top_selling_products = [], inv_inventory_value = 0,
            inv_turnover_ratio = Fin 0, inv_charts = []\<rparr>
      else \<lparr>inv_total_products = length inventory_data,
            inv_low_stock_items = low_stock_items inventory_data,
            inv_out_of_stock_items = out_of_stock_items inventory_data,
            inv_top_selling_products = top_selling_products inventory_data,
            inv_inventory_value = total_inventory_value inventory_data,
            inv_turnover_ratio = turnover_ratio inventory_data,
            inv_charts = [(''category_distribution'', category_chart inventory_data),
                          (''inventory_status'', alert_chart inventory_data)]\<rparr>)"

text \<open>Products for the examples: a name, the stock, the minimum stock, the units sold.\<close>

definition product :: "string \<Rightarrow> int \<Rightarrow> int \<Rightarrow> int \<Rightarrow> stock_row" where
  "product nm stock minimum sold =
     \<lparr>product_id = 0, name = nm, sku = [], current_stock = stock, min_stock = minimum,
      max_stock = 100, price = 2, cost = 1, category_name = None, supplier_name = None,
      total_sold = sold, total_purchased = 0\<rparr>"

text \<open>
  Ten products, three of them at or under the minimum stock of 5 (\<open>a\<close>, \<open>b\<close>, \<open>c\<close>), one of
  these three with no stock at all (\<open>a\<close>).
\<close>

definition ten_products :: "stock_row list" where
  "ten_products =
     [product ''a'' 0 5 1, product ''b'' 2 5 4, product ''c'' 5 5 4,
      product ''d'' 9 5 0, product ''e'' 9 5 0, product ''f'' 9 5 0, product ''g'' 9 5 0,
      product ''h'' 9 5 0, product ''i'' 9 5 0, product ''j'' 9 5 7]"

text \<open>
  The normal count as the specification words it: the products outside the union of the
  low-stock and the out-of-stock sets.
\<close>

definition spec_normal_count :: "stock_row list \<Rightarrow> int" where
  "spec_normal_count df =
     int (length (filter (\<lambda>r. \<not> (current_stock r \<le> min_stock r \<or> current_stock r = 0)) df))"

subsection \<open>Dates\<close>

text \<open>
  A Python \<^verbatim>\<open>date\<close> is its year, month and day; dates compare field by field in that
  order, which is the lexicographic order of the triple.
\<close>

type_synonym py_date = "nat \<times> nat \<times> nat"

definition is_leap :: "nat \<Rightarrow> bool" where
  "is_leap y = (y mod 4 = 0 \<and> (y mod 100 \<noteq> 0 \<or> y mod 400 = 0))"

definition days_in_month :: "nat \<Rightarrow> nat \<Rightarrow> nat" where
  "days_in_month y m =
     (if m = 2 then (if is_leap y then 29 else 28)
      else if m \<in> {4, 6, 9, 11} then 30 else 31)"

definition valid_date :: "py_date \<Rightarrow> bool" where
  "valid_date dt =
     (case dt of (y, m, d) \<Rightarrow>
        1 \<le> y \<and> y \<le> 9999 \<and> 1 \<le> m \<and> m \<le> 12 \<and> 1 \<le> d \<and> d \<le> days_in_month y m)"

definition days_before_year :: "nat \<Rightarrow> nat" where
  "days_before_year y =
     (y - 1) * 365 + (y - 1) div 4 + (y - 1) div 400 - (y - 1) div 100"

definition days_before_month :: "nat \<Rightarrow> nat \<Rightarrow> nat" where
  "days_before_month y m =
     sum_list (map (days_in_month y) [1..<m])"

text \<open>\<^verbatim>\<open>date.toordinal()\<close>: day 1 is 0001-01-01, a Monday.\<close>

definition toordinal :: "py_date \<Rightarrow> nat" where
  "toordinal dt = (case dt of (y, m, d) \<Rightarrow> days_before_year y + days_before_month y m + d)"

subsection \<open>Sales: the request window and the previous period\<close>

text \<open>
  Date arithmetic in Python goes through the ordinal: \<^verbatim>\<open>(b - a).days\<close> is the difference
  of the ordinals, and \<^verbatim>\<open>a - timedelta(days=n)\<close> is the date of ordinal
  \<open>toordinal a - n\<close>, or \<^verbatim>\<open>OverflowError\<close> outside 0001-01-01 .. 9999-12-31
  (ordinals 1 .. 3652059). The window computation is modelled on ordinals.
\<close>

type_synonym ordinal = int

definition max_ordinal :: ordinal where
  "max_ordinal = 3652059"

definition date_minus_days :: "ordinal \<Rightarrow> int \<Rightarrow> py_error + ordinal" where
  "date_minus_days d n =
     (if 1 \<le> d - n \<and> d - n \<le> max_ordinal then Inr (d - n) else Inl OverflowError)"

text \<open>
  \<^verbatim>\<open>period_days = (end_date - start_date).days
  prev_start = start_date - timedelta(days=period_days)
  prev_end = start_date\<close>
\<close>

definition previous_period :: "ordinal \<Rightarrow> ordinal \<Rightarrow> py_error + (ordinal \<times> ordinal)" where
  "previous_period start_date end_date =
     (let period_days = end_date - start_date in
      case date_minus_days start_date period_days of
        Inl e \<Rightarrow> Inl e
      | Inr prev_start \<Rightarrow> Inr (prev_start, start_date))"

text \<open>
  \<open>created_at\<close> is a timestamp, counted in microseconds; a date compared with a timestamp
  stands for its midnight.
\<close>

type_synonym timestamp = int

definition midnight :: "ordinal \<Rightarrow> timestamp" where
  "midnight d = d * 86400000000"

text \<open>
  The \<^verbatim>\<open>WHERE\<close> clauses of the two sales queries, on the creation time of a sale:
  \<^verbatim>\<open>created_at >= %s AND created_at <= %s\<close> with \<open>[start_date, end_date]\<close>, and
  \<^verbatim>\<open>created_at >= %s AND created_at < %s\<close> with \<open>[prev_start, prev_end]\<close>.
\<close>

definition in_current_period :: "ordinal \<Rightarrow> ordinal \<Rightarrow> timestamp \<Rightarrow> bool" where
  "in_current_period start_date end_date created_at =
     (midnight start_date \<le> created_at \<and> created_at \<le> midnight end_date)"

definition in_previous_period :: "ordinal \<Rightarrow> ordinal \<Rightarrow> timestamp \<Rightarrow> bool" where
  "in_previous_period prev_start prev_end created_at =
     (midnight prev_start \<le> created_at \<and> created_at < midnight prev_end)"

record sale =
  created_at :: timestamp
  total :: real
  payment_status :: string

text \<open>
  \<^verbatim>\<open>SELECT SUM(total) FROM sales WHERE created_at >= %s AND created_at < %s
      AND payment_status = 'COMPLETED'\<close>: the sum is \<open>NULL\<close> over no rows.
\<close>

definition prev_revenue_query :: "sale list \<Rightarrow> ordinal \<Rightarrow> ordinal \<Rightarrow> real option" where
  "prev_revenue_query sales prev_start prev_end =
     (let matching = filter (\<lambda>s. in_previous_period prev_start prev_end (created_at s)
                                 \<and> payment_status s = ''COMPLETED'') sales
      in if matching = [] then None else Some (sum_list (map total matching)))"

subsection \<open>Sales: period keys\<close>

text \<open>
  A pandas timestamp: its calendar day and the nanoseconds since midnight.
  \<^verbatim>\<open>pd.to_datetime\<close> on a column of dates gives the midnights of these days; with
  nanosecond resolution the days from 1677-09-22 to 2262-04-11 can be represented, any
  other raises \<^verbatim>\<open>OutOfBoundsDatetime\<close>.
\<close>

type_synonym pd_timestamp = "py_date \<times> nat"

definition to_datetime :: "py_date \<Rightarrow> py_error + pd_timestamp" where
  "to_datetime d =
     (if (1677, 9, 22) \<le> d \<and> d \<le> (2262, 4, 11) then Inr (d, 0)
      else Inl OutOfBoundsDatetime)"

fun to_datetime_column :: "py_date list \<Rightarrow> py_error + pd_timestamp list" where
  "to_datetime_column [] = Inr []"
| "to_datetime_column (d # ds) =
     (case to_datetime d of
        Inl e \<Rightarrow> Inl e
      | Inr t \<Rightarrow> (case to_datetime_column ds of
                    Inl e \<Rightarrow> Inl e
                  | Inr ts \<Rightarrow> Inr (t # ts)))"

text \<open>Decimal digits, and numbers zero-padded to two and to four digits.\<close>

definition digit :: "nat \<Rightarrow> char" where
  "digit n = ''0123456789'' ! (n mod 10)"

definition dec2 :: "nat \<Rightarrow> string" where
  "dec2 n = [digit (n div 10), digit n]"

definition dec4 :: "nat \<Rightarrow> string" where
  "dec4 n = [digit (n div 1000), digit (n div 100), digit (n div 10), digit n]"

text \<open>
  \<^verbatim>\<open>%U\<close>: the week of the year with Sunday as the first day of the week, the days before
  the first Sunday in week 0. The day of the week (Sunday 0) is the ordinal modulo 7.
\<close>

definition week_of_year :: "py_date \<Rightarrow> nat" where
  "week_of_year dt =
     (case dt of (y, m, d) \<Rightarrow>
        let yday = days_before_month y m + d - 1;
            wday = toordinal dt mod 7
        in (yday + 7 - wday) div 7)"

text \<open>
  \<^verbatim>\<open>strftime\<close> with the three formats of the view: \<^verbatim>\<open>'%Y-%m-%d'\<close>, \<^verbatim>\<open>'%Y-%m'\<close> and
  \<^verbatim>\<open>'%Y-W%U'\<close>. Only the calendar day of the timestamp is read.
\<close>

definition strftime_day :: "pd_timestamp \<Rightarrow> string" where
  "strftime_day t = (case fst t of (y, m, d) \<Rightarrow> dec4 y @ ''-'' @ dec2 m @ ''-'' @ dec2 d)"

definition strftime_month :: "pd_timestamp \<Rightarrow> string" where
  "strftime_month t = (case fst t of (y, m, d) \<Rightarrow> dec4 y @ ''-'' @ dec2 m)"

definition strftime_week :: "pd_timestamp \<Rightarrow> string" where
  "strftime_week t = (case fst t of (y, m, d) \<Rightarrow> dec4 y @ ''-W'' @ dec2 (week_of_year (fst t)))"

text \<open>
  \<^verbatim>\<open>if group_by == 'week': ...
  elif group_by == 'month': ...
  else:  # day\<close>
\<close>

definition period_key :: "string \<Rightarrow> pd_timestamp \<Rightarrow> string" where
  "period_key group_by t =
     (if group_by = ''week'' then strftime_week t
      else if group_by = ''month'' then strftime_month t
      else strftime_day t)"

subsection \<open>Sales: the view\<close>

text \<open>One row of the sales query: a day, a salesperson and a payment method.\<close>

record sales_row =
  sale_date :: py_date
  transaction_count :: int
  total_revenue :: real
  subtotal :: real
  tax_amount :: real
  avg_transaction_value :: real
  unique_customers :: int
  salesperson :: "string option"
  payment_method :: "string option"

record period_row = sales_row +
  period :: string

definition with_period :: "string \<Rightarrow> sales_row \<Rightarrow> pd_timestamp \<Rightarrow> period_row" where
  "with_period group_by r t =
     \<lparr>sale_date = sale_date r, transaction_count = transaction_count r,
      total_revenue = total_revenue r, subtotal = subtotal r, tax_amount = tax_amount r,
      avg_transaction_value = avg_transaction_value r, unique_customers = unique_customers r,
      salesperson = salesperson r, payment_method = payment_method r,
      period = period_key group_by t\<rparr>"

text \<open>
  \<^verbatim>\<open>df.groupby('period').agg({'total_revenue': 'sum', 'transaction_count': 'sum',
                               'unique_customers': 'sum'}).reset_index()\<close>
\<close>

definition period_stats :: "period_row list \<Rightarrow> (string \<times> real \<times> int \<times> int) list" where
  "period_stats df =
     map (\<lambda>k. let g = group_rows (\<lambda>r. Some (period r)) df k
               in (k, sum_list (map total_revenue g), sum_list (map transaction_count g),
                   sum_list (map unique_customers g)))
       (group_keys (\<lambda>r. Some (period r)) df)"

definition revenue_chart :: "period_row list \<Rightarrow> string chart" where
  "revenue_chart df =
     \<lparr>chart_title = ''Revenue Trend'', xaxis_title = ''Period'', yaxis_title = ''Revenue ($)'',
      traces = [\<lparr>trace_kind = Scatter, trace_name = ''Revenue'',
                 trace_x = map fst (period_stats df),
                 trace_y = map (\<lambda>(k, rev, n, c). rev) (period_stats df)\<rparr>]\<rparr>"

definition transaction_chart :: "period_row list \<Rightarrow> string chart" where
  "transaction_chart df =
     \<lparr>chart_title = ''Transaction Count'', xaxis_title = ''Period'',
      yaxis_title = ''Number of Transactions'',
      traces = [\<lparr>trace_kind = Bar, trace_name = ''Transactions'',
                 trace_x = map fst (period_stats df),
                 trace_y = map (\<lambda>(k, rev, n, c). real_of_int n) (period_stats df)\<rparr>]\<rparr>"

text \<open>
  \<^verbatim>\<open>df.groupby('salesperson').agg({...: 'sum'}).sort_values('total_revenue',
      ascending=False).head(10).to_dict('records')\<close>: the records hold the two sums, the
  salesperson is the index and is not part of them. Equal revenues are kept in group order.
\<close>

definition top_performers :: "period_row list \<Rightarrow> (real \<times> int) list" where
  "top_performers df =
     take 10 (rev (sort_key fst (rev
       (map (\<lambda>k. let g = group_rows salesperson df k
                 in (sum_list (map total_revenue g), sum_list (map transaction_count g)))
          (group_keys salesperson df)))))"

text \<open>\<^verbatim>\<open>df.groupby('payment_method')['total_revenue'].sum().to_dict()\<close>\<close>

definition payment_methods :: "period_row list \<Rightarrow> (string \<times> real) list" where
  "payment_methods df =
     map (\<lambda>k. (k, sum_list (map total_revenue (group_rows payment_method df k))))
       (group_keys payment_method df)"

record sales_body =
  sb_total_revenue :: real
  sb_total_transactions :: int
  sb_avg_transaction_value :: real
  sb_growth_rate :: real
  sb_charts :: "(string \<times> string chart) list"
  sb_top_performers :: "(real \<times> int) list"
  sb_payment_methods :: "(string \<times> real) list"

text \<open>
  The view from the parsed window on. \<open>sales_data\<close> are the rows the first query
  fetched, \<open>fetch_prev\<close> is the database answering the second query for the two dates
  it is given. An exception anywhere is caught by the view and turned into its error
  response; the model returns the exception.
\<close>

definition sales_analytics ::
  "ordinal \<Rightarrow> ordinal \<Rightarrow> string \<Rightarrow> sales_row list \<Rightarrow> (ordinal \<Rightarrow> ordinal \<Rightarrow> real option)
     \<Rightarrow> py_error + sales_body" where
  "sales_analytics start_date end_date group_by sales_data fetch_prev =
     (if sales_data = []
      then Inr \<lparr>sb_total_revenue = 0, sb_total_transactions = 0, sb_avg_transaction_value = 0,
                sb_growth_rate = 0, sb_charts = [], sb_top_performers = [],
                sb_payment_methods = []\<rparr>
      else
        let revenue_sum = sum_list (map total_revenue sales_data);
            transactions = sum_list (map transaction_count sales_data);
            avg_value = sum_list (map avg_transaction_value sales_data)
                          / real (length sales_data)
        in case previous_period start_date end_date of
             Inl e \<Rightarrow> Inl e
           | Inr (prev_start, prev_end) \<Rightarrow>
               (case growth_rate revenue_sum (prev_revenue_of (fetch_prev prev_start prev_end)) of
                  Inl e \<Rightarrow> Inl e
                | Inr growth \<Rightarrow>
                    (case to_datetime_column (map sale_date sales_data) of
                       Inl e \<Rightarrow> Inl e
                     | Inr ts \<Rightarrow>
                         let df = map2 (with_period group_by) sales_data ts
                         in Inr \<lparr>sb_total_revenue = revenue_sum,
                                  sb_total_transactions = transactions,
                                  sb_avg_transaction_value = avg_value,
                                  sb_growth_rate = growth,
                                  sb_charts = [(''revenue_trend'', revenue_chart df),
                                               (''transaction_count'', transaction_chart df)],
                                  sb_top_performers = top_performers df,
                                  sb_payment_methods = payment_methods df\<rparr>)))"

subsection \<open>Financial: merging revenue and costs\<close>

text \<open>
  The rows of the two financial queries: one per day with sales, one per day with
  purchases. Each query groups by the day and orders by it.
\<close>

record revenue_row =
  r_date :: py_date
  r_revenue :: real
  r_subtotal :: real
  r_tax :: real

record cost_row =
  c_date :: py_date
  c_costs :: real

text \<open>A row of the joined frame; a cell the join could not fill is missing (NaN).\<close>

record joined_row =
  j_date :: py_date
  j_revenue :: "real option"
  j_subtotal :: "real option"
  j_tax :: "real option"
  j_costs :: "real option"

record financial_row =
  date :: py_date
  revenue :: real
  fin_subtotal :: real
  tax :: real
  costs :: real

record cash_row = financial_row +
  profit :: real
  cash_flow :: real

definition join_both :: "revenue_row \<Rightarrow> cost_row \<Rightarrow> joined_row" where
  "join_both l r =
     \<lparr>j_date = r_date l, j_revenue = Some (r_revenue l), j_subtotal = Some (r_subtotal l),
      j_tax = Some (r_tax l), j_costs = Some (c_costs r)\<rparr>"

definition join_left_only :: "revenue_row \<Rightarrow> joined_row" where
  "join_left_only l =
     \<lparr>j_date = r_date l, j_revenue = Some (r_revenue l), j_subtotal = Some (r_subtotal l),
      j_tax = Some (r_tax l), j_costs = None\<rparr>"

definition join_right_only :: "cost_row \<Rightarrow> joined_row" where
  "join_right_only r =
     \<lparr>j_date = c_date r, j_revenue = None, j_subtotal = None, j_tax = None,
      j_costs = Some (c_costs r)\<rparr>"

text \<open>
  \<^verbatim>\<open>pd.merge(sales_df, purchase_df, on='date', how='outer')\<close>: the keys of both frames,
  in ascending order (an outer join sorts its keys); under each key every pairing of a left
  row with a right row, or the rows of the one frame that has the key with the columns of
  the other missing.
\<close>

definition join_key :: "revenue_row list \<Rightarrow> cost_row list \<Rightarrow> py_date \<Rightarrow> joined_row list" where
  "join_key sales_df purchase_df k =
     (let ls = filter (\<lambda>l. r_date l = k) sales_df;
          rs = filter (\<lambda>r. c_date r = k) purchase_df
      in if rs = [] then map join_left_only ls
         else if ls = [] then map join_right_only rs
         else concat (map (\<lambda>l. map (join_both l) rs) ls))"

definition merge_outer :: "revenue_row list \<Rightarrow> cost_row list \<Rightarrow> joined_row list" where
  "merge_outer sales_df purchase_df =
     concat (map (join_key sales_df purchase_df)
       (sort (remdups (map r_date sales_df @ map c_date purchase_df))))"

text \<open>\<^verbatim>\<open>.fillna(0)\<close>: every missing cell becomes 0.\<close>

definition fill0 :: "real option \<Rightarrow> real" where
  "fill0 v = (case v of None \<Rightarrow> 0 | Some x \<Rightarrow> x)"

definition fillna0 :: "joined_row \<Rightarrow> financial_row" where
  "fillna0 j =
     \<lparr>date = j_date j, revenue = fill0 (j_revenue j), fin_subtotal = fill0 (j_subtotal j),
      tax = fill0 (j_tax j), costs = fill0 (j_costs j)\<rparr>"

text \<open>
  The four branches of the merge: both frames have rows; only the sales frame
  (\<^verbatim>\<open>financial_df['costs'] = 0\<close>); only the purchase frame (revenue, subtotal and tax set
  to 0); neither, where the view returns its empty response and builds no frame.
\<close>

definition financial_df :: "revenue_row list \<Rightarrow> cost_row list \<Rightarrow> financial_row list option" where
  "financial_df sales_df purchase_df =
     (if sales_df \<noteq> [] \<and> purchase_df \<noteq> []
      then Some (map fillna0 (merge_outer sales_df purchase_df))
      else if sales_df \<noteq> []
      then Some (map (\<lambda>l. \<lparr>date = r_date l, revenue = r_revenue l, fin_subtotal = r_subtotal l,
                           tax = r_tax l, costs = 0\<rparr>) sales_df)
      else if purchase_df \<noteq> []
      then Some (map (\<lambda>r. \<lparr>date = c_date r, revenue = 0, fin_subtotal = 0, tax = 0,
                           costs = c_costs r\<rparr>) purchase_df)
      else None)"

text \<open>\<^verbatim>\<open>Series.cumsum()\<close>: the running sums, in row order.\<close>

fun cumsum_from :: "real \<Rightarrow> real list \<Rightarrow> real list" where
  "cumsum_from acc [] = []"
| "cumsum_from acc (x # xs) = (acc + x) # cumsum_from (acc + x) xs"

definition cumsum :: "real list \<Rightarrow> real list" where
  "cumsum xs = cumsum_from 0 xs"

text \<open>
  \<^verbatim>\<open>financial_df['profit'] = financial_df['revenue'] - financial_df['costs']
  financial_df['cash_flow'] = financial_df['profit'].cumsum()\<close>
\<close>

definition add_metrics :: "financial_row list \<Rightarrow> cash_row list" where
  "add_metrics df =
     map2 (\<lambda>r c. \<lparr>date = date r, revenue = revenue r, fin_subtotal = fin_subtotal r,
                   tax = tax r, costs = costs r, profit = revenue r - costs r, cash_flow = c\<rparr>)
       df (cumsum (map (\<lambda>r. revenue r - costs r) df))"

text \<open>The merged series with its two derived columns, as the view holds it.\<close>

definition financial_series :: "revenue_row list \<Rightarrow> cost_row list \<Rightarrow> cash_row list option" where
  "financial_series sales_df purchase_df = map_option add_metrics (financial_df sales_df purchase_df)"

definition cash_flow_chart :: "cash_row list \<Rightarrow> py_date chart" where
  "cash_flow_chart df =
     \<lparr>chart_title = ''Cash Flow Trend'', xaxis_title = ''Date'', yaxis_title = ''Cash Flow ($)'',
      traces = [\<lparr>trace_kind = Scatter, trace_name = ''Cumulative Cash Flow'',
                 trace_x = map date df, trace_y = map cash_flow df\<rparr>]\<rparr>"

definition revenue_costs_chart :: "cash_row list \<Rightarrow> py_date chart" where
  "revenue_costs_chart df =
     \<lparr>chart_title = ''Revenue vs Costs'', xaxis_title = ''Date'', yaxis_title = ''Amount ($)'',
      traces = [\<lparr>trace_kind = Scatter, trace_name = ''Revenue'',
                 trace_x = map date df, trace_y = map revenue df\<rparr>,
                \<lparr>trace_kind = Scatter, trace_name = ''Costs'',
                 trace_x = map date df, trace_y = map costs df\<rparr>]\<rparr>"

record financial_body =
  fb_total_revenue :: real
  fb_total_costs :: real
  fb_gross_profit :: real
  fb_profit_margin :: real
  fb_cash_flow :: "(py_date \<times> real) list"
  fb_charts :: "(string \<times> py_date chart) list"

text \<open>
  \<^verbatim>\<open>profit_margin = (gross_profit / total_revenue * 100) if total_revenue > 0 else 0\<close>
\<close>

definition profit_margin :: "real \<Rightarrow> real \<Rightarrow> py_error + real" where
  "profit_margin gross_profit revenue_sum =
     (if revenue_sum > 0
      then (case py_truediv gross_profit revenue_sum of
              Inl e \<Rightarrow> Inl e
            | Inr q \<Rightarrow> Inr (q * 100))
      else Inr 0)"

text \<open>The view, from the rows of its two queries to the body of its response.\<close>

definition financial_analytics :: "revenue_row list \<Rightarrow> cost_row list \<Rightarrow> py_error + financial_body" where
  "financial_analytics sales_data purchase_data =
     (case financial_series sales_data purchase_data of
        None \<Rightarrow> Inr \<lparr>fb_total_revenue = 0, fb_total_costs = 0, fb_gross_profit = 0,
                     fb_profit_margin = 0, fb_cash_flow = [], fb_charts = []\<rparr>
      | Some df \<Rightarrow>
          let revenue_sum = sum_list (map revenue df);
              costs_sum = sum_list (map costs df);
              gross_profit = revenue_sum - costs_sum
          in case profit_margin gross_profit revenue_sum of
               Inl e \<Rightarrow> Inl e
             | Inr margin \<Rightarrow>
                 Inr \<lparr>fb_total_revenue = revenue_sum, fb_total_costs = costs_sum,
                       fb_gross_profit = gross_profit, fb_profit_margin = margin,
                       fb_cash_flow = map (\<lambda>r. (date r, cash_flow r)) df,
                       fb_charts = [(''cash_flow'', cash_flow_chart df),
                                    (''revenue_costs'', revenue_costs_chart df)]\<rparr>)"




section \<open>Properties\<close>

subsection \<open>Growth rate\<close>

text \<open>
  Claim C3. For every current total \<open>c\<close> and previous total \<open>p\<close> the growth rate is
  \<open>(c - p) / p * 100\<close> when \<open>p > 0\<close> and exactly \<open>0\<close> when \<open>p \<le> 0\<close>; it is always
  a number, never the division error; and the growth rate of 150 against 100 is 50.
\<close>

theorem growth_rate_formula:
  "(0 < p \<longrightarrow> growth_rate c p = Inr ((c - p) / p * 100)) \<and>
   (p \<le> 0 \<longrightarrow> growth_rate c p = Inr 0) \<and>
   (\<exists>g. growth_rate c p = Inr g) \<and>
   growth_rate 150 100 = Inr 50"
  by (simp add: growth_rate_def py_truediv_def)

theorem growth_rate_formula_witness:
  "growth_rate 120 80 = Inr 50 \<and> growth_rate 120 0 = Inr 0 \<and> growth_rate 120 (- 5) = Inr 0"
  using growth_rate_formula [of 80 120] growth_rate_formula [of 0 120]
    growth_rate_formula [of "- 5" 120]
  by simp

subsection \<open>Inventory\<close>

text \<open>
  Claim C1. The claim wants the normal count of the status overview to be the number of
  products outside the union of the low-stock and the out-of-stock sets. The view
  subtracts both counts from the total, so a product without stock that is also low on
  stock is taken off twice: on ten products, three of them low and one of these out of
  stock, the view reports 6 normal products where 7 are outside the union, and on a single
  product without stock it reports \<open>-1\<close>.
\<close>

theorem normal_count_subtracts_twice:
  "length ten_products = 10 \<and>
   status_count ten_products ''Low Stock'' = Some 3 \<and>
   status_count ten_products ''Out of Stock'' = Some 1 \<and>
   spec_normal_count ten_products = 7 \<and>
   status_count ten_products ''Normal'' = Some 6 \<and>
   spec_normal_count [product ''a'' 0 5 1] = 0 \<and>
   status_count [product ''a'' 0 5 1] ''Normal'' = Some (- 1)"
  by (simp add: ten_products_def product_def low_stock_items_def out_of_stock_items_def
      spec_normal_count_def status_count_def alert_data_def)




text \<open>
  Claim C10. When no row has a negative minimum stock, every row of the out-of-stock list
  is a row of the low-stock list.
\<close>

theorem out_of_stock_subset_low_stock:
  "\<forall>r \<in> set df. 0 \<le> min_stock r \<Longrightarrow>
   set (out_of_stock_items df) \<subseteq> set (low_stock_items df)"
  by (auto simp: out_of_stock_items_def low_stock_items_def)

theorem out_of_stock_subset_low_stock_witness:
  "out_of_stock_items ten_products = [product ''a'' 0 5 1] \<and>
   set (out_of_stock_items ten_products) \<subseteq> set (low_stock_items ten_products)"
proof -
  have h: "\<forall>r \<in> set ten_products. 0 \<le> min_stock r"
    by (simp add: ten_products_def product_def)
  have "out_of_stock_items ten_products = [product ''a'' 0 5 1]"
    by (simp add: ten_products_def product_def out_of_stock_items_def)
  with out_of_stock_subset_low_stock [OF h] show ?thesis
    by simp
qed

subsection \<open>Sales: the previous period\<close>

text \<open>
  Claim C4. Whenever the view computes a previous period for the window from
  \<open>start_date\<close> to \<open>end_date\<close> (it does unless the start of that period falls before
  the first date Python has), the period ends at \<open>start_date\<close>, spans as many days as
  the window, selects the sales created from its first midnight on and strictly before the
  midnight of \<open>start_date\<close>, and no sale is selected by both the previous period and
  the window.
\<close>

theorem previous_period_half_open:
  "(1 \<le> start_date - (end_date - start_date) \<and>
    start_date - (end_date - start_date) \<le> max_ordinal \<longrightarrow>
      previous_period start_date end_date
        = Inr (start_date - (end_date - start_date), start_date)) \<and>
   (previous_period start_date end_date = Inr (prev_start, prev_end) \<longrightarrow>
      prev_end = start_date \<and>
      prev_end - prev_start = end_date - start_date \<and>
      (\<forall>t. in_previous_period prev_start prev_end t \<longleftrightarrow>
             midnight (start_date - (end_date - start_date)) \<le> t \<and> t < midnight start_date) \<and>
      (\<forall>t. \<not> (in_previous_period prev_start prev_end t \<and>
                in_current_period start_date end_date t)))"
  by (auto simp: previous_period_def date_minus_days_def in_previous_period_def
      in_current_period_def Let_def split: if_splits)

text \<open>
  The window 2024-01-01 .. 2024-01-31 (ordinals 738886 and 738916): the previous period is
  2023-12-02 .. 2024-01-01, the last microsecond of 2023 is in it, the first of 2024 is
  not and belongs to the window.
\<close>

theorem previous_period_half_open_witness:
  "previous_period 738886 738916 = Inr (738856, 738886) \<and>
   in_previous_period 738856 738886 (midnight 738886 - 1) \<and>
   \<not> in_previous_period 738856 738886 (midnight 738886) \<and>
   in_current_period 738886 738916 (midnight 738886)"
  using previous_period_half_open [of 738886 738916 738856 738886]
  by (simp add: max_ordinal_def in_previous_period_def in_current_period_def midnight_def)

subsection \<open>Empty row sets\<close>

text \<open>
  Claim C6. On an empty row set each of the three views answers with its empty response:
  every number 0, every list empty, no chart; none of them fails. For the financial view
  the row sets of both queries are empty.
\<close>

theorem empty_rows_empty_response:
  "sales_analytics start_date end_date group_by [] fetch_prev =
     Inr \<lparr>sb_total_revenue = 0, sb_total_transactions = 0, sb_avg_transaction_value = 0,
          sb_growth_rate = 0, sb_charts = [], sb_top_performers = [],
          sb_payment_methods = []\<rparr> \<and>
   inventory_analytics [] =
     \<lparr>inv_total_products = 0, inv_low_stock_items = [], inv_out_of_stock_items = [],
      inv_top_selling_products = [], inv_inventory_value = 0,
      inv_turnover_ratio = Fin 0, inv_charts = []\<rparr> \<and>
   financial_analytics [] [] =
     Inr \<lparr>fb_total_revenue = 0, fb_total_costs = 0, fb_gross_profit = 0,
          fb_profit_margin = 0, fb_cash_flow = [], fb_charts = []\<rparr>"
  by (simp add: sales_analytics_def inventory_analytics_def financial_analytics_def
      financial_series_def financial_df_def)

subsection \<open>Sales: period keys\<close>

lemma digits_distinct: "distinct ''0123456789''"
  by simp

lemma digit_eq_iff: "digit a = digit b \<longleftrightarrow> a mod 10 = b mod 10"
proof -
  have "a mod 10 < length ''0123456789''" "b mod 10 < length ''0123456789''"
    by simp_all
  with digits_distinct show ?thesis
    unfolding digit_def by (simp only: nth_eq_iff_index_eq)
qed

lemma last_digit_step:
  fixes a b :: nat
  assumes "a div 10 = b div 10" "a mod 10 = b mod 10"
  shows "a = b"
proof -
  have "a = 10 * (a div 10) + a mod 10" by simp
  also have "\<dots> = 10 * (b div 10) + b mod 10" using assms by simp
  also have "\<dots> = b" by simp
  finally show ?thesis .
qed

lemma dec2_inj:
  assumes "a < 100" "b < 100" "dec2 a = dec2 b"
  shows "a = b"
proof -
  from assms(3) have h: "a div 10 mod 10 = b div 10 mod 10" "a mod 10 = b mod 10"
    by (simp_all add: dec2_def digit_eq_iff)
  from assms(1,2) have "a div 10 < 10" "b div 10 < 10" by simp_all
  with h(1) have "a div 10 = b div 10" by simp
  from this h(2) show ?thesis by (rule last_digit_step)
qed

lemma dec4_inj:
  assumes "a < 10000" "b < 10000" "dec4 a = dec4 b"
  shows "a = b"
proof -
  from assms(3) have h: "a div 1000 mod 10 = b div 1000 mod 10"
    "a div 100 mod 10 = b div 100 mod 10" "a div 10 mod 10 = b div 10 mod 10"
    "a mod 10 = b mod 10"
    by (simp_all add: dec4_def digit_eq_iff)
  from assms(1,2) have "a div 1000 < 10" "b div 1000 < 10" by simp_all
  with h(1) have "a div 1000 = b div 1000" by simp
  then have "a div 100 div 10 = b div 100 div 10" by (simp add: div_mult2_eq [symmetric])
  from this h(2) have "a div 100 = b div 100" by (rule last_digit_step)
  then have "a div 10 div 10 = b div 10 div 10" by (simp add: div_mult2_eq [symmetric])
  from this h(3) have "a div 10 = b div 10" by (rule last_digit_step)
  from this h(4) show ?thesis by (rule last_digit_step)
qed

lemma valid_date_bounds:
  "valid_date (y, m, d) \<Longrightarrow> y < 10000 \<and> m < 100 \<and> d < 100"
  by (auto simp: valid_date_def days_in_month_def split: if_splits)

lemma strftime_day_inj:
  assumes "valid_date (fst t1)" "valid_date (fst t2)" "strftime_day t1 = strftime_day t2"
  shows "fst t1 = fst t2"
proof -
  obtain y1 m1 d1 where t1: "fst t1 = (y1, m1, d1)" by (cases "fst t1") auto
  obtain y2 m2 d2 where t2: "fst t2 = (y2, m2, d2)" by (cases "fst t2") auto
  from assms(1) t1 have b1: "y1 < 10000" "m1 < 100" "d1 < 100"
    using valid_date_bounds [of y1 m1 d1] by simp_all
  from assms(2) t2 have b2: "y2 < 10000" "m2 < 100" "d2 < 100"
    using valid_date_bounds [of y2 m2 d2] by simp_all
  from assms(3) t1 t2 have "dec4 y1 = dec4 y2" "dec2 m1 = dec2 m2" "dec2 d1 = dec2 d2"
    by (simp_all add: strftime_day_def dec4_def dec2_def)
  with b1 b2 have "y1 = y2" "m1 = m2" "d1 = d2"
    by (auto dest: dec4_inj dec2_inj)
  with t1 t2 show ?thesis by simp
qed

text \<open>
  Claim C8. For two timestamps on calendar days that exist, and a \<open>group_by\<close> that is
  neither \<open>week\<close> nor \<open>month\<close> (so \<open>day\<close>, or any unknown value): the period keys
  are equal exactly when the two calendar days are the same, and the key is the one
  \<open>day\<close> gives.
\<close>

theorem day_key_same_day:
  "valid_date (fst t1) \<Longrightarrow> valid_date (fst t2) \<Longrightarrow> group_by \<notin> {''week'', ''month''} \<Longrightarrow>
   (period_key group_by t1 = period_key group_by t2 \<longleftrightarrow> fst t1 = fst t2) \<and>
   period_key group_by t1 = period_key ''day'' t1"
proof -
  assume v: "valid_date (fst t1)" "valid_date (fst t2)"
    and g: "group_by \<notin> {''week'', ''month''}"
  from g have k: "period_key group_by t = strftime_day t" for t
    by (simp add: period_key_def)
  have k': "period_key ''day'' t = strftime_day t" for t
    by (simp add: period_key_def)
  have "strftime_day t1 = strftime_day t2" if "fst t1 = fst t2"
    using that by (simp add: strftime_day_def)
  with strftime_day_inj [OF v] show ?thesis
    by (auto simp: k k')
qed

theorem day_key_same_day_witness:
  "period_key ''day'' ((2024, 1, 1), 0) = ''2024-01-01'' \<and>
   period_key ''day'' ((2024, 1, 1), 0) = period_key ''day'' ((2024, 1, 1), 5) \<and>
   period_key ''day'' ((2024, 1, 1), 0) \<noteq> period_key ''day'' ((2024, 1, 2), 0) \<and>
   period_key ''hour'' ((2024, 1, 1), 0) = ''2024-01-01''"
proof -
  have v: "valid_date (fst ((2024, 1, 1), 0::nat))" "valid_date (fst ((2024, 1, 1), 5::nat))"
    "valid_date (fst ((2024, 1, 2), 0::nat))"
    by (simp_all add: valid_date_def days_in_month_def)
  have g: "''day'' \<notin> {''week'', ''month''}" "''hour'' \<notin> {''week'', ''month''}"
    by simp_all
  have e: "period_key ''day'' ((2024, 1, 1), 0) = ''2024-01-01''"
    by (simp add: period_key_def strftime_day_def dec4_def dec2_def digit_def)
  from day_key_same_day [OF v(1) v(2) g(1)] day_key_same_day [OF v(1) v(3) g(1)]
    day_key_same_day [OF v(1) v(1) g(2)] e
  show ?thesis by simp
qed

subsection \<open>Financial: the merged series\<close>
































end
